theory Spec2Isabelle
  imports Complex_Main "HOL-Library.AList" "HOL-Library.Product_Lexorder"
begin

section \<open>Python values and objects\<close>

text \<open>
  The notebooks build small Python objects and hand them to a solver. A \<^verbatim>\<open>datetime\<close> is
  modelled by its proleptic Gregorian ordinal (\<^verbatim>\<open>date.toordinal()\<close>) and its time of day;
  the notebooks only use naive datetimes. A \<^verbatim>\<open>float\<close> is modelled by the real number it
  denotes: the code compares floats and adds, multiplies and divides small values, and no claim
  below depends on rounding.
\<close>

record datetime =
  ordinal :: int
  hour :: nat
  minute :: nat
  second :: nat
  microsecond :: nat

text \<open>\<^verbatim>\<open>datetime.time\<close> objects compare as the tuple (hour, minute, second, microsecond).\<close>

type_synonym pytime = "nat \<times> nat \<times> nat \<times> nat"

definition time :: "nat \<Rightarrow> nat \<Rightarrow> pytime" where
  "time h m = (h, m, 0, 0)"

definition dt_time :: "datetime \<Rightarrow> pytime" where
  "dt_time d = (hour d, minute d, second d, microsecond d)"

text \<open>A \<^verbatim>\<open>timedelta\<close> is its total number of microseconds.\<close>

type_synonym timedelta = int

definition microseconds_of_day :: "datetime \<Rightarrow> int" where
  "microseconds_of_day d =
     ((int (hour d) * 60 + int (minute d)) * 60 + int (second d)) * 1000000 + int (microsecond d)"

definition dt_sub :: "datetime \<Rightarrow> datetime \<Rightarrow> timedelta" where
  "dt_sub a b =
     (ordinal a - ordinal b) * 86400 * 1000000 + (microseconds_of_day a - microseconds_of_day b)"

definition total_seconds :: "timedelta \<Rightarrow> real" where
  "total_seconds td = real_of_int td / 1000000"

text \<open>
  \<^verbatim>\<open>datetime(2019,7,day) + timedelta(hours=h)\<close>, the way the notebook builds the start
  and end of a shift from a day and an hour offset; 737241 is
  \<^verbatim>\<open>date(2019,7,1).toordinal()\<close>.
\<close>

definition july_2019_at :: "nat \<Rightarrow> nat \<Rightarrow> datetime" where
  "july_2019_at day h =
     \<lparr>ordinal = 737240 + int day + int (h div 24), hour = h mod 24, minute = 0, second = 0,
      microsecond = 0\<rparr>"

datatype pyval =
    FloatV real
  | BoolV bool
  | DateTimeV datetime

text \<open>
  An instance of a class with a hand-written \<^verbatim>\<open>__init__\<close> is its attribute dictionary
  (\<^verbatim>\<open>vars(obj)\<close>), in insertion order. \<^verbatim>\<open>self.k = v\<close> is \<open>setattr\<close>.
\<close>

type_synonym 'v pyobj = "(string \<times> 'v) list"

definition setattr :: "'v pyobj \<Rightarrow> string \<Rightarrow> 'v \<Rightarrow> 'v pyobj" where
  "setattr self k v = AList.update k v self"

definition getattr :: "'v pyobj \<Rightarrow> string \<Rightarrow> 'v option" where
  "getattr self k = map_of self k"

text \<open>The values an instance holds, in attribute order (\<^verbatim>\<open>vars(obj).values()\<close>).\<close>

definition stored_values :: "'v pyobj \<Rightarrow> 'v list" where
  "stored_values self = map snd self"

section \<open>Record classes of the notebooks\<close>

subsection \<open>Urban zone fares: Connection\<close>

text \<open>
  \<^verbatim>\<open>
  class Connection:
      def __init__(self, origin, destination, distance, elasticity, base_rideship):
          self.origin = origin
          self.destination = destination
          self.distance = distance
          self.elasticity = elasticity
          self.base_ridership = base_rideship
  \<close>
\<close>

definition Connection_init :: "'v \<Rightarrow> 'v \<Rightarrow> 'v \<Rightarrow> 'v \<Rightarrow> 'v \<Rightarrow> 'v pyobj" where
  "Connection_init origin destination distance elasticity base_rideship =
     (let self = [];
          self = setattr self ''origin'' origin;
          self = setattr self ''destination'' destination;
          self = setattr self ''distance'' distance;
          self = setattr self ''elasticity'' elasticity;
          self = setattr self ''base_ridership'' base_rideship
      in self)"

subsection \<open>Doctors scheduling: Doctor and Shift\<close>

definition Doctor_init :: "'v \<Rightarrow> 'v \<Rightarrow> 'v \<Rightarrow> 'v \<Rightarrow> 'v pyobj" where
  "Doctor_init name is_pregnant allocation work_locations =
     (let self = [];
          self = setattr self ''name'' name;
          self = setattr self ''is_pregnant'' is_pregnant;
          self = setattr self ''allocation'' allocation;
          self = setattr self ''work_locations'' work_locations
      in self)"

text \<open>
  \<^verbatim>\<open>
  class Shift:
      def __init__(self, start_time, end_time):
          self.start_time = start_time
          self.end_time = end_time
          self.duration_in_hours = (end_time - start_time).total_seconds() / 3600
          self.is_nightshift = start_time.time() >= time(18,0) or start_time.time() <= time(2,0)
          self.can_work_pregnant = self.duration_in_hours < 12 and not self.is_nightshift
  \<close>
  The last line reads the two attributes just written; the model binds the written values.
\<close>

definition Shift_init :: "datetime \<Rightarrow> datetime \<Rightarrow> pyval pyobj" where
  "Shift_init start_time end_time =
     (let self = [];
          self = setattr self ''start_time'' (DateTimeV start_time);
          self = setattr self ''end_time'' (DateTimeV end_time);
          duration_in_hours = total_seconds (dt_sub end_time start_time) / 3600;
          self = setattr self ''duration_in_hours'' (FloatV duration_in_hours);
          is_nightshift = (dt_time start_time \<ge> time 18 0 \<or> dt_time start_time \<le> time 2 0);
          self = setattr self ''is_nightshift'' (BoolV is_nightshift);
          can_work_pregnant = (duration_in_hours < 12 \<and> \<not> is_nightshift);
          self = setattr self ''can_work_pregnant'' (BoolV can_work_pregnant)
      in self)"

subsection \<open>Untitled (introduction to classes): Doctor; Introduction to Python: Rectangle\<close>

text \<open>
  \<^verbatim>\<open>
  class Doctor:
      def __init__(self, name, allocation, is_pregnant):
          self.name = name
          self.allocation = allocation
          self.is_pregnant = is_pregnant
  class Rectangle:
      def __init__(self, width, length):
          self.width = width
          self.length = length
  \<close>
\<close>

definition Untitled_Doctor_init :: "'v \<Rightarrow> 'v \<Rightarrow> 'v \<Rightarrow> 'v pyobj" where
  "Untitled_Doctor_init name allocation is_pregnant =
     (let self = [];
          self = setattr self ''name'' name;
          self = setattr self ''allocation'' allocation;
          self = setattr self ''is_pregnant'' is_pregnant
      in self)"

definition Rectangle_init :: "'v \<Rightarrow> 'v \<Rightarrow> 'v pyobj" where
  "Rectangle_init width length' =
     (let self = [];
          self = setattr self ''width'' width;
          self = setattr self ''length'' length'
      in self)"

section \<open>Nurse scheduling: the assignment constraints\<close>

text \<open>
  \<^verbatim>\<open>
  nDays = 7
  nShifts = 4 # We set the first shift (=0) as the off day
  DRange = range(nDays)
  SRange = range(nShifts)
  x = mdl.binary_var_cube(nDays,nShifts,nNurses,name='x')
  mdl.add_constraints([mdl.sum(x[d,s,n] for s in SRange) == 1, ...] for d in DRange for n in NRange)
  mdl.add_constraints([mdl.sum(x[d,0,n] for d in DRange) >= 1, ...] for n in NRange)
  mdl.add_constraints([mdl.sum(x[d,0,n] for d in DRange) <= 2, ...] for n in NRange)
  \<close>
  A value of the variable cube is a function from (day, shift, nurse) to an integer; the
  constraints are the predicates the solver enforces on it.
\<close>

definition nDays :: nat where "nDays = 7"
definition nShifts :: nat where "nShifts = 4"

definition DRange :: "nat list" where "DRange = [0..<nDays]"
definition SRange :: "nat list" where "SRange = [0..<nShifts]"

type_synonym var_cube = "nat \<Rightarrow> nat \<Rightarrow> nat \<Rightarrow> int"

definition mdl_sum :: "('a \<Rightarrow> int) \<Rightarrow> 'a list \<Rightarrow> int" where
  "mdl_sum f rng = sum_list (map f rng)"

text \<open>\<^verbatim>\<open>binary_var_cube\<close>: every variable of nurse \<open>n\<close> takes the value 0 or 1.\<close>

definition binary_vars :: "var_cube \<Rightarrow> nat \<Rightarrow> bool" where
  "binary_vars x n = list_all (\<lambda>d. list_all (\<lambda>s. x d s n = 0 \<or> x d s n = 1) SRange) DRange"

definition assign_all_nurses :: "var_cube \<Rightarrow> nat \<Rightarrow> bool" where
  "assign_all_nurses x n = list_all (\<lambda>d. mdl_sum (\<lambda>s. x d s n) SRange = 1) DRange"

definition LB_for_day_off :: "var_cube \<Rightarrow> nat \<Rightarrow> bool" where
  "LB_for_day_off x n = (mdl_sum (\<lambda>d. x d 0 n) DRange \<ge> 1)"

definition UB_for_day_off :: "var_cube \<Rightarrow> nat \<Rightarrow> bool" where
  "UB_for_day_off x n = (mdl_sum (\<lambda>d. x d 0 n) DRange \<le> 2)"

text \<open>Nurse \<open>n\<close> works on day \<open>d\<close> when assigned to a shift other than shift 0, the day off.\<close>

definition works_on :: "var_cube \<Rightarrow> nat \<Rightarrow> nat \<Rightarrow> bool" where
  "works_on x n d = list_ex (\<lambda>s. s > 0 \<and> x d s n = 1) SRange"

definition days_worked :: "var_cube \<Rightarrow> nat \<Rightarrow> nat" where
  "days_worked x n = length (filter (works_on x n) DRange)"

section \<open>Basin-hopping: the accept test\<close>

text \<open>
  \<^verbatim>\<open>
  class MyBounds(object):
      def __init__(self, xmax=[1.1,1.1], xmin=[-1.1,-1.1] ):
          self.xmax = np.array(xmax)
          self.xmin = np.array(xmin)
      def __call__(self, **kwargs):
          x = kwargs["x_new"]
          tmax = bool(np.all(x <= self.xmax))
          tmin = bool(np.all(x >= self.xmin))
          return tmax and tmin
  mybounds = MyBounds()
  ret = basinhopping(func, x0, minimizer_kwargs=minimizer_kwargs, niter=10, accept_test=mybounds)
  \<close>
  \<^verbatim>\<open>MyBounds2\<close> is the same class with the default \<^verbatim>\<open>xmin=[0.5,0.5]\<close>. A comparison of two
  one-dimensional arrays is elementwise; numpy broadcasts an array of length one and raises
  ValueError when the lengths differ otherwise.
\<close>

datatype np_error = ValueError

definition np_compare ::
    "(real \<Rightarrow> real \<Rightarrow> bool) \<Rightarrow> real list \<Rightarrow> real list \<Rightarrow> np_error + bool list" where
  "np_compare f xs ys =
     (if length xs = length ys then Inr (map (\<lambda>(a, b). f a b) (zip xs ys))
      else if length xs = 1 then Inr (map (\<lambda>b. f (hd xs) b) ys)
      else if length ys = 1 then Inr (map (\<lambda>a. f a (hd ys)) xs)
      else Inl ValueError)"

definition np_all :: "bool list \<Rightarrow> bool" where
  "np_all bs = list_all (\<lambda>b. b) bs"

record MyBounds =
  xmax :: "real list"
  xmin :: "real list"

definition mybounds :: MyBounds where
  "mybounds = \<lparr>xmax = [11 / 10, 11 / 10], xmin = [- 11 / 10, - 11 / 10]\<rparr>"

definition mybounds2 :: MyBounds where
  "mybounds2 = \<lparr>xmax = [11 / 10, 11 / 10], xmin = [5 / 10, 5 / 10]\<rparr>"

definition MyBounds_call :: "MyBounds \<Rightarrow> real list \<Rightarrow> np_error + bool" where
  "MyBounds_call self x_new =
     (let x = x_new in
      case np_compare (\<le>) x (xmax self) of
        Inl e \<Rightarrow> Inl e
      | Inr le \<Rightarrow>
          (let tmax = np_all le in
           case np_compare (\<ge>) x (xmin self) of
             Inl e \<Rightarrow> Inl e
           | Inr ge \<Rightarrow> (let tmin = np_all ge in Inr (tmax \<and> tmin))))"

text \<open>
  The constructors. An omitted argument takes the default list; the value stored is
  \<^verbatim>\<open>np.array\<close> of the list, and \<open>np_array\<close> is the parameter that stands for that
  conversion.
\<close>

definition MyBounds_init ::
    "(real list \<Rightarrow> 'v) \<Rightarrow> real list option \<Rightarrow> real list option \<Rightarrow> 'v pyobj" where
  "MyBounds_init np_array = (\<lambda>xmax_arg xmin_arg.
     let xmax = (case xmax_arg of None \<Rightarrow> [11 / 10, 11 / 10] | Some l \<Rightarrow> l);
         xmin = (case xmin_arg of None \<Rightarrow> [- 11 / 10, - 11 / 10] | Some l \<Rightarrow> l);
         self = [];
         self = setattr self ''xmax'' (np_array xmax);
         self = setattr self ''xmin'' (np_array xmin)
     in self)"

definition MyBounds2_init ::
    "(real list \<Rightarrow> 'v) \<Rightarrow> real list option \<Rightarrow> real list option \<Rightarrow> 'v pyobj" where
  "MyBounds2_init np_array = (\<lambda>xmax_arg xmin_arg.
     let xmax = (case xmax_arg of None \<Rightarrow> [11 / 10, 11 / 10] | Some l \<Rightarrow> l);
         xmin = (case xmin_arg of None \<Rightarrow> [5 / 10, 5 / 10] | Some l \<Rightarrow> l);
         self = [];
         self = setattr self ''xmax'' (np_array xmax);
         self = setattr self ''xmin'' (np_array xmin)
     in self)"

section \<open>Portfolio optimization\<close>

text \<open>
  \<^verbatim>\<open>
  @dataclass(frozen=True)
  class Investment:
      name: str
      mean: float
      sigma: float
  x = {inv : xp.var(vartype = xp.continuous, lb = 0, ub = 1, ...) for inv in investments}
  enforcing_investment_amount = xp.constraint(xp.Sum(x[inv] for inv in investments) == 1, ...)
  #enforce_risk_limit = xp.constraint(xp.Sum(inv.mean*x[inv] for inv in investments)
  # + norm.ppf(beta)*xp.Sum((inv.sigma*x[inv])**2 for inv in investments)**(1/2) >= 0)
  x_all = xp.var(vartype = xp.continuous, lb = min((inv.mean for inv in investments)),
                 ub = max((inv.mean for inv in investments)), name = 'x_all')
  link_x_all = xp.constraint(x_all == xp.Sum(inv.mean*x[inv] for inv in investments), ...)
  enforce_risk_limit = xp.constraint((norm.ppf(beta))**2*xp.Sum((inv.sigma*x[inv])**2
                                     for inv in investments) <= x_all**2)
  \<close>
  A solution gives every variable a real value: \<open>x\<close> maps an investment to its share and
  \<open>x_all\<close> is a number. \<^verbatim>\<open>norm.ppf(beta)\<close> is computed by scipy and is the parameter
  \<open>ppf_beta\<close>. Each constraint is the predicate the solver enforces.
\<close>

datatype Investment = Investment (name: string) (mean: real) (sigma: real)

text \<open>
  The investments are built from the ticker list of the notebook; their means and sigmas are
  computed from downloaded prices.
\<close>

definition stocks :: "string list" where
  "stocks = [''AAPL'', ''AMZN'', ''MSFT'', ''GOOG'', ''FB'', ''JNJ'', ''BABA'', ''JPM'', ''XOM'',
     ''WMT'', ''BAC'', ''PFE'', ''VZ'', ''PG'', ''T'', ''BA'', ''CSCO'', ''HD'', ''INTC'', ''KO'',
     ''ORCL'', ''DIS'', ''C'', ''MCD'', ''NFLX'', ''IBM'', ''GE'', ''TSLA'', ''F'', ''AMD'']"

definition xp_Sum :: "('a \<Rightarrow> real) \<Rightarrow> 'a list \<Rightarrow> real" where
  "xp_Sum f xs = sum_list (map f xs)"

definition x_bounds :: "Investment list \<Rightarrow> (Investment \<Rightarrow> real) \<Rightarrow> bool" where
  "x_bounds investments x = list_all (\<lambda>inv. 0 \<le> x inv \<and> x inv \<le> 1) investments"

text \<open>
  \<^verbatim>\<open>min\<close> and \<^verbatim>\<open>max\<close> of a generator; on an empty one Python raises ValueError, and then
  the variable \<open>x_all\<close> is never created.
\<close>

definition py_min :: "real list \<Rightarrow> real option" where
  "py_min xs = (case xs of [] \<Rightarrow> None | y # ys \<Rightarrow> Some (fold min ys y))"

definition py_max :: "real list \<Rightarrow> real option" where
  "py_max xs = (case xs of [] \<Rightarrow> None | y # ys \<Rightarrow> Some (fold max ys y))"

definition x_all_bounds :: "Investment list \<Rightarrow> real \<Rightarrow> bool" where
  "x_all_bounds investments x_all =
     (case py_min (map mean investments) of
        None \<Rightarrow> False
      | Some lb \<Rightarrow>
          (case py_max (map mean investments) of
             None \<Rightarrow> False
           | Some ub \<Rightarrow> lb \<le> x_all \<and> x_all \<le> ub))"

definition enforcing_investment_amount :: "Investment list \<Rightarrow> (Investment \<Rightarrow> real) \<Rightarrow> bool" where
  "enforcing_investment_amount investments x = (xp_Sum (\<lambda>inv. x inv) investments = 1)"

definition link_x_all :: "Investment list \<Rightarrow> (Investment \<Rightarrow> real) \<Rightarrow> real \<Rightarrow> bool" where
  "link_x_all investments x x_all = (x_all = xp_Sum (\<lambda>inv. mean inv * x inv) investments)"

definition enforce_risk_limit ::
    "real \<Rightarrow> Investment list \<Rightarrow> (Investment \<Rightarrow> real) \<Rightarrow> real \<Rightarrow> bool" where
  "enforce_risk_limit ppf_beta investments x x_all =
     (ppf_beta ^ 2 * xp_Sum (\<lambda>inv. (sigma inv * x inv) ^ 2) investments \<le> x_all ^ 2)"

text \<open>The constraint of the commented-out cell, which the notebook reformulates.\<close>

definition commented_risk_limit ::
    "real \<Rightarrow> Investment list \<Rightarrow> (Investment \<Rightarrow> real) \<Rightarrow> bool" where
  "commented_risk_limit ppf_beta investments x =
     (xp_Sum (\<lambda>inv. mean inv * x inv) investments
        + ppf_beta * sqrt (xp_Sum (\<lambda>inv. (sigma inv * x inv) ^ 2) investments) \<ge> 0)"

text \<open>Everything the notebook adds to the model: variable bounds and the three constraints.\<close>

definition portfolio_model ::
    "real \<Rightarrow> Investment list \<Rightarrow> (Investment \<Rightarrow> real) \<Rightarrow> real \<Rightarrow> bool" where
  "portfolio_model ppf_beta investments x x_all =
     (x_bounds investments x \<and> x_all_bounds investments x_all
      \<and> enforcing_investment_amount investments x
      \<and> link_x_all investments x x_all
      \<and> enforce_risk_limit ppf_beta investments x x_all)"



section \<open>Facility location\<close>

text \<open>
  \<^verbatim>\<open>
  @dataclass(frozen=True)
  class Unit:
      name: str
      coordinate: tuple
      def get_distance(self, other_unit):
          return np.sqrt(np.sum(np.square(np.subtract(self.coordinate, other_unit.coordinate))))
  @dataclass(frozen=True)
  class Facility(Unit):
      construction_cost: float
  @dataclass(frozen=True)
  class Client(Unit):
      demand: float
  class Connection:
      def __init__(self, origin: Facility, destination: Client):
          self.origin = origin
          self.destination = destination
          self.distance = origin.get_distance(destination)
  \<close>
  The four numpy functions are not code of the notebooks, and what they compute depends on
  the element type numpy picks for the coordinates (64-bit integers wrap, floats round). They
  are parameters of the model: \<open>'c\<close> is the type of a coordinate tuple, \<open>'a\<close> of an array,
  \<open>'f\<close> of a number, and each function may raise an exception of type \<open>'e\<close>.
\<close>

record 'c Unit =
  name :: string
  coordinate :: 'c

record 'c Facility = "'c Unit" +
  construction_cost :: real

record 'c Client = "'c Unit" +
  demand :: real

record ('c, 'a, 'f, 'e) numpy =
  np_subtract :: "'c \<Rightarrow> 'c \<Rightarrow> 'e + 'a"
  np_square :: "'a \<Rightarrow> 'e + 'a"
  np_sum :: "'a \<Rightarrow> 'e + 'f"
  np_sqrt :: "'f \<Rightarrow> 'e + 'f"

definition get_distance ::
    "('c, 'a, 'f, 'e) numpy \<Rightarrow> ('c, 'x) Unit_scheme \<Rightarrow> ('c, 'y) Unit_scheme \<Rightarrow> 'e + 'f" where
  "get_distance np self other_unit =
     (case np_subtract np (coordinate self) (coordinate other_unit) of
        Inl e \<Rightarrow> Inl e
      | Inr difference \<Rightarrow>
          (case np_square np difference of
             Inl e \<Rightarrow> Inl e
           | Inr squares \<Rightarrow>
               (case np_sum np squares of
                  Inl e \<Rightarrow> Inl e
                | Inr summed \<Rightarrow> np_sqrt np summed)))"

datatype ('c, 'f) facility_value =
    FacilityV "'c Facility"
  | ClientV "'c Client"
  | DistanceV 'f

definition Facility_Connection_init ::
    "('c, 'a, 'f, 'e) numpy \<Rightarrow> 'c Facility \<Rightarrow> 'c Client \<Rightarrow> 'e + ('c, 'f) facility_value pyobj"
where
  "Facility_Connection_init np origin destination =
     (let self = [];
          self = setattr self ''origin'' (FacilityV origin);
          self = setattr self ''destination'' (ClientV destination)
      in case get_distance np origin destination of
           Inl e \<Rightarrow> Inl e
         | Inr d \<Rightarrow> Inr (setattr self ''distance'' (DistanceV d)))"

section \<open>The notebooks as sequences of cells\<close>

text \<open>
  A notebook is the list of its code cells, in file order. Of a cell the model keeps what
  concerns a solver or a data source outside the notebook's own code: each statement that
  binds a name to a solver (\<^verbatim>\<open>model = xp.problem(...)\<close> of Xpress,
  \<^verbatim>\<open>mdl = Model(...)\<close> of docplex, \<^verbatim>\<open>from scipy.optimize import basinhopping\<close>), each
  call of a solve routine through such a name (\<^verbatim>\<open>model.solve()\<close>, \<^verbatim>\<open>mdl.solve()\<close>,
  \<^verbatim>\<open>basinhopping(...)\<close>), each read of data from a file or the network
  (\<^verbatim>\<open>pd.read_excel\<close>, \<^verbatim>\<open>web.DataReader\<close>), each \<^verbatim>\<open>try\<close>/\<^verbatim>\<open>except\<close> statement, and
  the exception stored in the cell's output, if there is one. Every such statement stands at
  the top level of its cell, outside any loop, branch or function body, so a cell meets its
  events once and in order. A cell whose source does not compile has no events: Python runs
  none of it. Some files under \<^verbatim>\<open>src/\<close> hold two JSON documents one after the other;
  each document is a notebook.
\<close>

datatype solver = Xpress | Docplex | Scipy_basinhopping

datatype event =
    Bind string solver
  | Solve string
  | ReadExcel string
  | DataReader string
  | Handler

text \<open>
  The exceptions found in cell outputs (\<^verbatim>\<open>ename\<close>, and \<^verbatim>\<open>evalue\<close> where it matters):
  \<^verbatim>\<open>NameError: name 'model' is not defined\<close>;
  \<^verbatim>\<open>RuntimeError: Xpress licensing error 4: The maximum number of simultaneous uses has been
  reached\<close>;
  \<^verbatim>\<open>SystemError: <method 'addConstraint' of 'xpress.problem' objects> returned a result
  with an error set\<close>;
  \<^verbatim>\<open>IndentationError: unexpected indent\<close>; \<^verbatim>\<open>IndexError: list index out of range\<close>;
  \<^verbatim>\<open>FrozenInstanceError: cannot assign to field 'name'\<close>.
\<close>

datatype exn =
    NameError
  | Xpress_licensing_RuntimeError
  | SystemError
  | IndentationError
  | IndexError
  | FrozenInstanceError

text \<open>Whether an exception is an infeasibility or a licensing error reported by the solver.\<close>

fun solver_infeasibility_or_licensing :: "exn \<Rightarrow> bool" where
  "solver_infeasibility_or_licensing Xpress_licensing_RuntimeError = True"
| "solver_infeasibility_or_licensing _ = False"

record cell =
  events :: "event list"
  error_output :: "exn option"

type_synonym notebook = "cell list"

definition code_cell :: "event list \<Rightarrow> cell" where
  "code_cell evs = \<lparr>events = evs, error_output = None\<rparr>"

definition failed_cell :: "event list \<Rightarrow> exn \<Rightarrow> cell" where
  "failed_cell evs e = \<lparr>events = evs, error_output = Some e\<rparr>"

text \<open>A cell that does not compile; its output may show the syntax error.\<close>

definition syntax_error_cell :: "exn option \<Rightarrow> cell" where
  "syntax_error_cell out = \<lparr>events = [], error_output = out\<rparr>"

definition run :: "notebook \<Rightarrow> event list" where
  "run nb = concat (map events nb)"

text \<open>
  Executing a notebook top to bottom: the cells are run one after another in one kernel,
  which starts with no name bound. A binding statement binds its name, also over an earlier
  binding. A solve call through a bound name enters that solver and blocks until it returns.
  A solve call through a name that nothing has bound raises NameError before any solver is
  entered; the exception ends the cell, and the kernel goes on with the next cell, as it does
  in the stored notebooks, which show cells run after a failed one. All other statements are
  taken to complete: the packages are installed and licensed, the spreadsheet and the
  network are there. Stored outputs play no part in a run.
\<close>

type_synonym kernel = "string \<rightharpoonup> solver"

fun run_cell :: "kernel \<Rightarrow> event list \<Rightarrow> kernel \<times> solver list" where
  "run_cell k [] = (k, [])"
| "run_cell k (Bind n s # es) = run_cell (k(n \<mapsto> s)) es"
| "run_cell k (Solve n # es) =
     (case k n of
        None \<Rightarrow> (k, [])
      | Some s \<Rightarrow> (case run_cell k es of (k', entered) \<Rightarrow> (k', s # entered)))"
| "run_cell k (e # es) = run_cell k es"

fun run_cells :: "kernel \<Rightarrow> notebook \<Rightarrow> solver list" where
  "run_cells k [] = []"
| "run_cells k (c # cs) =
     (case run_cell k (events c) of (k', entered) \<Rightarrow> entered @ run_cells k' cs)"

text \<open>The solvers a notebook enters when executed top to bottom, in order.\<close>

definition solver_calls :: "notebook \<Rightarrow> solver list" where
  "solver_calls nb = run_cells Map.empty nb"

fun is_solve :: "event \<Rightarrow> bool" where
  "is_solve (Solve n) = True"
| "is_solve _ = False"

fun is_data_read :: "event \<Rightarrow> bool" where
  "is_data_read (ReadExcel f) = True"
| "is_data_read (DataReader src) = True"
| "is_data_read _ = False"

definition data_reads :: "notebook \<Rightarrow> event list" where
  "data_reads nb = filter is_data_read (run nb)"

definition recorded_errors :: "notebook \<Rightarrow> exn list" where
  "recorded_errors nb = List.map_filter error_output nb"

text \<open>
  One failing cell of \<^verbatim>\<open>Introduction to Python.ipynb\<close> raises in the notebook's own code:
  \<^verbatim>\<open>
  p = [4, 2, 1, 4]
  p[4]
  \<close>
\<close>

definition py_getitem :: "'a list \<Rightarrow> int \<Rightarrow> exn + 'a" where
  "py_getitem xs i =
     (if 0 \<le> i \<and> i < int (length xs) then Inr (xs ! nat i)
      else if - int (length xs) \<le> i \<and> i < 0 then Inr (xs ! nat (int (length xs) + i))
      else Inl IndexError)"

definition index_cell :: "exn + int" where
  "index_cell = (let p = [4, 2, 1, 4] in py_getitem p 4)"

text \<open>\<^verbatim>\<open>Batch scheduling.part2.solution-checkpoint.ipynb\<close>,
  titled \<open>Batch scheduling of a fermentation process\<close>.\<close>

definition batch_scheduling_part2_solution_checkpoint :: notebook where
  "batch_scheduling_part2_solution_checkpoint =
     [code_cell [Bind ''model'' Xpress], code_cell [], code_cell [], code_cell [],
      code_cell [], code_cell [], code_cell [], code_cell [], code_cell []]"

text \<open>\<^verbatim>\<open>Facility location problem.solution-checkpoint.ipynb\<close>,
  titled \<open>Facility location problem\<close>.\<close>

definition facility_location_solution_checkpoint :: notebook where
  "facility_location_solution_checkpoint =
     [code_cell [Bind ''model'' Xpress], code_cell [], code_cell [], code_cell [],
      code_cell [], code_cell [], code_cell [], code_cell [], failed_cell [] NameError,
      code_cell [Solve ''model''], code_cell []]"

text \<open>\<^verbatim>\<open>Portfolio optimization with basinhopping-checkpoint.ipynb\<close>, JSON document 1 (from line 1),
  titled \<open>Do portfolio optimization with basinhopping\<close>.\<close>

definition portfolio_basinhopping_checkpoint :: notebook where
  "portfolio_basinhopping_checkpoint =
     [code_cell [Bind ''basinhopping'' Scipy_basinhopping], code_cell [], code_cell [],
      code_cell [Solve ''basinhopping'']]"

text \<open>\<^verbatim>\<open>Portfolio optimization with basinhopping-checkpoint.ipynb\<close>, JSON document 2 (from line 126),
  titled \<open>Model predictive control: the tank problem\<close>.\<close>

definition portfolio_basinhopping_checkpoint_2_tank :: notebook where
  "portfolio_basinhopping_checkpoint_2_tank =
     [code_cell [Bind ''model'' Xpress], code_cell [], code_cell [], code_cell [],
      code_cell [Solve ''model''], code_cell []]"

text \<open>\<^verbatim>\<open>Portfolio optimization2-checkpoint.ipynb\<close>,
  titled \<open>Making money with portfolio optimization\<close>.\<close>

definition portfolio_optimization2_checkpoint :: notebook where
  "portfolio_optimization2_checkpoint =
     [code_cell [DataReader ''yahoo''], code_cell [Bind ''model'' Xpress], code_cell [],
      code_cell [], code_cell [], code_cell [], code_cell [Solve ''model''], code_cell []]"

text \<open>\<^verbatim>\<open>Tank problem-checkpoint.ipynb\<close>, JSON document 1 (from line 1),
  titled \<open>The tank problem\<close>.\<close>

definition tank_problem_checkpoint :: notebook where
  "tank_problem_checkpoint =
     [code_cell [Bind ''mdl'' Docplex], code_cell [], code_cell [], code_cell [],
      code_cell [Solve ''mdl''], code_cell [], code_cell []]"

text \<open>\<^verbatim>\<open>Tank problem-checkpoint.ipynb\<close>, JSON document 2 (from line 167),
  titled \<open>N-queens problem\<close>.\<close>

definition tank_problem_checkpoint_2_n_queens :: notebook where
  "tank_problem_checkpoint_2_n_queens =
     [failed_cell [Bind ''model'' Xpress] Xpress_licensing_RuntimeError, code_cell [],
      code_cell [], code_cell [], code_cell [], code_cell [Solve ''model''], code_cell []]"

text \<open>\<^verbatim>\<open>Two tanks.solution-checkpoint.ipynb\<close>,
  titled \<open>Two tank problem\<close>.\<close>

definition two_tanks_solution_checkpoint :: notebook where
  "two_tanks_solution_checkpoint =
     [code_cell [Bind ''model'' Xpress], code_cell [], code_cell [], code_cell [],
      code_cell [], code_cell [], code_cell [], code_cell [Solve ''model'']]"

text \<open>\<^verbatim>\<open>Batch scheduling.ipynb\<close>,
  titled \<open>Batch scheduling of a fermentation process\<close>.\<close>

definition batch_scheduling :: notebook where
  "batch_scheduling =
     [code_cell [Bind ''model'' Xpress], code_cell [], syntax_error_cell None]"

text \<open>\<^verbatim>\<open>Batch scheduling.part1.solution.ipynb\<close>,
  titled \<open>Batch scheduling of a fermentation process\<close>.\<close>

definition batch_scheduling_part1_solution :: notebook where
  "batch_scheduling_part1_solution =
     [code_cell [Bind ''model'' Xpress], code_cell [], code_cell []]"

text \<open>\<^verbatim>\<open>Doctors scheduling.part1.solution.ipynb\<close>,
  titled \<open>Scheduling the doctors for the paediatric units of Hamburg\<close>.\<close>

definition doctors_scheduling_part1_solution :: notebook where
  "doctors_scheduling_part1_solution =
     [code_cell [ReadExcel ''DoctorData.xlsx''], code_cell [Bind ''model'' Xpress],
      code_cell [], code_cell [], code_cell [], code_cell [], code_cell [],
      failed_cell [] SystemError, code_cell [], code_cell [Solve ''model''], code_cell []]"

text \<open>\<^verbatim>\<open>Doctors scheduling.solution.ipynb\<close>,
  titled \<open>Scheduling the doctors for the paediatric units of Hamburg\<close>.\<close>

definition doctors_scheduling_solution :: notebook where
  "doctors_scheduling_solution =
     [code_cell [ReadExcel ''DoctorData.xlsx''], code_cell [Bind ''model'' Xpress],
      code_cell [], code_cell [], code_cell [], code_cell [], code_cell [], code_cell [],
      code_cell [], code_cell [Solve ''model''], code_cell []]"

text \<open>\<^verbatim>\<open>Introduction to Python.ipynb\<close>,
  titled \<open>Introduction to Python\<close>.\<close>

definition introduction_to_python :: notebook where
  "introduction_to_python =
     [code_cell [], code_cell [], code_cell [], code_cell [], code_cell [], code_cell [],
      code_cell [], syntax_error_cell (Some IndentationError), failed_cell [] IndexError,
      code_cell [], code_cell [], code_cell [], code_cell [], code_cell [], code_cell [],
      code_cell [], code_cell [], code_cell [], code_cell [], code_cell [], code_cell []]"

text \<open>\<^verbatim>\<open>N-queens problem.ipynb\<close>,
  titled \<open>N-queens problem\<close>.\<close>

definition n_queens_problem :: notebook where
  "n_queens_problem =
     [code_cell [Bind ''model'' Xpress], code_cell [], code_cell [], code_cell [],
      code_cell [], code_cell [Solve ''model''], code_cell [], code_cell []]"

text \<open>\<^verbatim>\<open>Untitled.ipynb\<close>,
  titled \<open>An introduction to classes\<close>.\<close>

definition untitled :: notebook where
  "untitled =
     [code_cell [], code_cell [], code_cell [], code_cell [], code_cell [],
      syntax_error_cell None, code_cell [], code_cell [], code_cell [], code_cell [],
      code_cell [], code_cell [], failed_cell [] FrozenInstanceError, code_cell [],
      code_cell [], code_cell []]"

text \<open>\<^verbatim>\<open>Urban zone fares.ipynb\<close>,
  titled \<open>Urban zone fares\<close>.\<close>

definition urban_zone_fares :: notebook where
  "urban_zone_fares =
     [code_cell [], syntax_error_cell None, code_cell [], syntax_error_cell None, code_cell [],
      code_cell [Solve ''model'']]"

text \<open>\<^verbatim>\<open>Urban zone fares.solution.ipynb\<close>,
  titled \<open>Urban zone fares\<close>.\<close>

definition urban_zone_fares_solution :: notebook where
  "urban_zone_fares_solution =
     [code_cell [], code_cell [Bind ''model'' Xpress], code_cell [], code_cell [],
      code_cell [], code_cell [Solve ''model''], code_cell [], code_cell [], code_cell []]"

text \<open>\<^verbatim>\<open>part_001\<close>,
  titled \<open>Basin-hopping algorithm in scipy\<close>.\<close>

definition part_001_basin_hopping :: notebook where
  "part_001_basin_hopping =
     [code_cell [Bind ''basinhopping'' Scipy_basinhopping, Solve ''basinhopping''],
      code_cell [], code_cell [Solve ''basinhopping''], code_cell [],
      code_cell [Solve ''basinhopping''], code_cell [], code_cell [],
      code_cell [Solve ''basinhopping'']]"

text \<open>\<^verbatim>\<open>part_002\<close>,
  titled \<open>Nurse scheduling\<close>.\<close>

definition part_002_nurse_scheduling :: notebook where
  "part_002_nurse_scheduling =
     [code_cell [Bind ''mdl'' Docplex], code_cell [], code_cell [], code_cell [], code_cell [],
      code_cell [Solve ''mdl''], code_cell [Bind ''mdl'' Docplex], code_cell [], code_cell [],
      code_cell [Solve ''mdl''], code_cell [], code_cell [Bind ''mdl'' Docplex], code_cell [],
      code_cell [Solve ''mdl''], code_cell [], code_cell []]"

text \<open>\<^verbatim>\<open>part_003\<close>, JSON document 1 (from line 1),
  titled \<open>Solving Sudokus using mathematical programming\<close>.\<close>

definition part_003_sudoku :: notebook where
  "part_003_sudoku =
     [code_cell [Bind ''model'' Xpress], code_cell [], code_cell [], code_cell [],
      code_cell [], code_cell [], code_cell [], code_cell [Solve ''model''], code_cell []]"

text \<open>\<^verbatim>\<open>part_003\<close>, JSON document 2 (from line 225),
  titled \<open>Making money with portfolio optimization\<close>.\<close>

definition part_003_2_portfolio :: notebook where
  "part_003_2_portfolio =
     [code_cell [DataReader ''yahoo''], code_cell [], code_cell [], code_cell [], code_cell [],
      code_cell [], code_cell [Solve ''model''], code_cell [], code_cell []]"

text \<open>\<^verbatim>\<open>part_004\<close>, JSON document 1 (from line 1),
  titled \<open>Deviation estimation\<close>.\<close>

definition part_004_deviation_estimation :: notebook where
  "part_004_deviation_estimation =
     [code_cell []]"

text \<open>\<^verbatim>\<open>part_004\<close>, JSON document 2 (from line 145),
  titled \<open>Scheduling the doctors for the paediatric units of Hamburg\<close>.\<close>

definition part_004_2_doctors_scheduling :: notebook where
  "part_004_2_doctors_scheduling =
     [code_cell [ReadExcel ''DoctorData.xlsx''], code_cell [], code_cell [], code_cell [],
      code_cell [], code_cell [], code_cell [Solve ''model'']]"

definition repository :: "(string \<times> notebook) list" where
  "repository =
     [(''Batch scheduling.part2.solution-checkpoint.ipynb'', batch_scheduling_part2_solution_checkpoint),
      (''Facility location problem.solution-checkpoint.ipynb'', facility_location_solution_checkpoint),
      (''Portfolio optimization with basinhopping-checkpoint.ipynb #1'', portfolio_basinhopping_checkpoint),
      (''Portfolio optimization with basinhopping-checkpoint.ipynb #2'', portfolio_basinhopping_checkpoint_2_tank),
      (''Portfolio optimization2-checkpoint.ipynb'', portfolio_optimization2_checkpoint),
      (''Tank problem-checkpoint.ipynb #1'', tank_problem_checkpoint),
      (''Tank problem-checkpoint.ipynb #2'', tank_problem_checkpoint_2_n_queens),
      (''Two tanks.solution-checkpoint.ipynb'', two_tanks_solution_checkpoint),
      (''Batch scheduling.ipynb'', batch_scheduling),
      (''Batch scheduling.part1.solution.ipynb'', batch_scheduling_part1_solution),
      (''Doctors scheduling.part1.solution.ipynb'', doctors_scheduling_part1_solution),
      (''Doctors scheduling.solution.ipynb'', doctors_scheduling_solution),
      (''Introduction to Python.ipynb'', introduction_to_python),
      (''N-queens problem.ipynb'', n_queens_problem),
      (''Untitled.ipynb'', untitled),
      (''Urban zone fares.ipynb'', urban_zone_fares),
      (''Urban zone fares.solution.ipynb'', urban_zone_fares_solution),
      (''part_001'', part_001_basin_hopping),
      (''part_002'', part_002_nurse_scheduling),
      (''part_003 #1'', part_003_sudoku),
      (''part_003 #2'', part_003_2_portfolio),
      (''part_004 #1'', part_004_deviation_estimation),
      (''part_004 #2'', part_004_2_doctors_scheduling)]"

section \<open>Dataclasses\<close>

text \<open>
  The other record types are declared with \<^verbatim>\<open>@dataclass\<close>, all but one with
  \<^verbatim>\<open>frozen=True\<close>; none has a default value or a \<^verbatim>\<open>__post_init__\<close>. A declaration is
  its list of fields, inherited fields first, and its frozen flag. The generated constructor
  takes one argument for each field and assigns them in order (a different number of
  arguments is a TypeError, here \<open>None\<close>). Assigning to an attribute of an instance of a
  frozen dataclass raises FrozenInstanceError; for any other class it is a plain assignment.
  Facility location declares Unit, Facility and Client; portfolio optimization Investment;
  N-queens Position; Sudoku Value; doctors scheduling Placement and Nightshift; the
  introduction to Python Rectangle, first not frozen and then frozen.
\<close>

record dataclass =
  field_names :: "string list"
  frozen :: bool

definition dataclass_init :: "dataclass \<Rightarrow> 'v list \<Rightarrow> 'v pyobj option" where
  "dataclass_init cls args =
     (if length args = length (field_names cls)
      then Some (fold (\<lambda>(k, v) self. setattr self k v) (zip (field_names cls) args) [])
      else None)"

definition dataclass_setattr :: "dataclass \<Rightarrow> 'v pyobj \<Rightarrow> string \<Rightarrow> 'v \<Rightarrow> exn + 'v pyobj" where
  "dataclass_setattr cls self k v =
     (if frozen cls then Inl FrozenInstanceError else Inr (setattr self k v))"

definition Unit_dataclass :: dataclass where
  "Unit_dataclass = \<lparr>field_names = [''name'', ''coordinate''], frozen = True\<rparr>"

definition Facility_dataclass :: dataclass where
  "Facility_dataclass =
     \<lparr>field_names = field_names Unit_dataclass @ [''construction_cost''], frozen = True\<rparr>"

definition Client_dataclass :: dataclass where
  "Client_dataclass = \<lparr>field_names = field_names Unit_dataclass @ [''demand''], frozen = True\<rparr>"

definition Investment_dataclass :: dataclass where
  "Investment_dataclass = \<lparr>field_names = [''name'', ''mean'', ''sigma''], frozen = True\<rparr>"

definition Position_dataclass :: dataclass where
  "Position_dataclass = \<lparr>field_names = [''row'', ''column''], frozen = True\<rparr>"

definition Value_dataclass :: dataclass where
  "Value_dataclass = \<lparr>field_names = [''row'', ''column'', ''value''], frozen = True\<rparr>"

definition Placement_dataclass :: dataclass where
  "Placement_dataclass = \<lparr>field_names = [''doctor'', ''shift'', ''hospital''], frozen = True\<rparr>"

definition Nightshift_dataclass :: dataclass where
  "Nightshift_dataclass = \<lparr>field_names = [''doctor'', ''day''], frozen = True\<rparr>"

definition Rectangle_dataclass :: dataclass where
  "Rectangle_dataclass = \<lparr>field_names = [''width'', ''length''], frozen = False\<rparr>"

definition Rectangle_frozen_dataclass :: dataclass where
  "Rectangle_frozen_dataclass = \<lparr>field_names = [''width'', ''length''], frozen = True\<rparr>"

section \<open>Kinds of computation in the notebooks\<close>




























section \<open>Theorems\<close>

subsection \<open>Record classes\<close>

text \<open>
  C3. For every invocation \<^verbatim>\<open>Connection(origin, destination, distance, elasticity,
  base_rideship)\<close> of the urban zone fares notebook, the attributes of the constructed object
  are origin, destination, distance, elasticity and base_ridership, holding the five
  constructor arguments in that order, and the object has no other attribute.
\<close>

theorem Connection_init_stores_arguments:
  "Connection_init origin destination distance elasticity base_rideship =
     [(''origin'', origin), (''destination'', destination), (''distance'', distance),
      (''elasticity'', elasticity), (''base_ridership'', base_rideship)]"
  by (simp add: Connection_init_def setattr_def)

lemma Shift_init_attributes:
  "Shift_init start_time end_time =
     [(''start_time'', DateTimeV start_time), (''end_time'', DateTimeV end_time),
      (''duration_in_hours'', FloatV (total_seconds (dt_sub end_time start_time) / 3600)),
      (''is_nightshift'',
         BoolV (time 18 0 \<le> dt_time start_time \<or> dt_time start_time \<le> time 2 0)),
      (''can_work_pregnant'',
         BoolV (total_seconds (dt_sub end_time start_time) / 3600 < 12
           \<and> \<not> (time 18 0 \<le> dt_time start_time \<or> dt_time start_time \<le> time 2 0)))]"
  by (simp add: Shift_init_def setattr_def)

text \<open>
  C8. For every Shift constructed with a start time and an end time, the stored attribute
  can_work_pregnant is true if and only if the stored duration_in_hours is strictly less than
  12 and the stored is_nightshift is false, where is_nightshift is true if and only if the
  start time's time of day is at or after 18:00 or at or before 02:00.
\<close>

theorem Shift_can_work_pregnant:
  "\<exists>d n c. getattr (Shift_init start_time end_time) ''duration_in_hours'' = Some (FloatV d)
     \<and> getattr (Shift_init start_time end_time) ''is_nightshift'' = Some (BoolV n)
     \<and> getattr (Shift_init start_time end_time) ''can_work_pregnant'' = Some (BoolV c)
     \<and> c = (d < 12 \<and> \<not> n)
     \<and> n = (time 18 0 \<le> dt_time start_time \<or> dt_time start_time \<le> time 2 0)"
proof (intro exI conjI)
  show "getattr (Shift_init start_time end_time) ''duration_in_hours'' =
          Some (FloatV (total_seconds (dt_sub end_time start_time) / 3600))"
    by (simp add: Shift_init_attributes getattr_def)
  show "getattr (Shift_init start_time end_time) ''is_nightshift'' =
          Some (BoolV (time 18 0 \<le> dt_time start_time \<or> dt_time start_time \<le> time 2 0))"
    by (simp add: Shift_init_attributes getattr_def)
  show "getattr (Shift_init start_time end_time) ''can_work_pregnant'' =
          Some (BoolV (total_seconds (dt_sub end_time start_time) / 3600 < 12
            \<and> \<not> (time 18 0 \<le> dt_time start_time \<or> dt_time start_time \<le> time 2 0)))"
    by (simp add: Shift_init_attributes getattr_def)
qed (rule refl)+

text \<open>
  The weekday shifts of Monday 1 July 2019: the early shift 06:00 to 14:00 may be worked
  during pregnancy, the night shift 22:00 to 06:00 may not.
\<close>

lemma Shift_examples:
  "getattr (Shift_init (july_2019_at 1 6) (july_2019_at 1 14)) ''can_work_pregnant''
     = Some (BoolV True)"
  "getattr (Shift_init (july_2019_at 1 22) (july_2019_at 1 30)) ''can_work_pregnant''
     = Some (BoolV False)"
  by (simp_all add: Shift_init_attributes getattr_def total_seconds_def dt_sub_def
      microseconds_of_day_def july_2019_at_def dt_time_def time_def)

text \<open>
  C4, as stated, says that no record class stores anything but its constructor arguments.
  It fails for Shift: the early shift of 1 July 2019 is built from two datetimes and stores
  five values, three of them computed.
\<close>

theorem Shift_stores_derived_fields:
  "stored_values (Shift_init (july_2019_at 1 6) (july_2019_at 1 14)) =
     [DateTimeV (july_2019_at 1 6), DateTimeV (july_2019_at 1 14), FloatV 8, BoolV False,
      BoolV True]
   \<and> stored_values (Shift_init (july_2019_at 1 6) (july_2019_at 1 14)) \<noteq>
     [DateTimeV (july_2019_at 1 6), DateTimeV (july_2019_at 1 14)]"
  by (simp add: Shift_init_attributes stored_values_def total_seconds_def dt_sub_def
      microseconds_of_day_def july_2019_at_def dt_time_def time_def)

text \<open>
  C4, amended. No record type defined in a notebook checks or maintains a relation between
  its fields, and constructing an instance stores the constructor's arguments unchanged,
  with these exceptions that the code makes by design.
  Hand-written constructors: Doctor (doctors scheduling, and the introduction to classes),
  Rectangle and the Connection of urban zone fares store exactly their arguments; MyBounds
  and MyBounds2 store \<^verbatim>\<open>np.array(xmax)\<close> and \<^verbatim>\<open>np.array(xmin)\<close>, the conversions of their
  arguments; Shift stores its two arguments and three fields computed from them,
  duration_in_hours, is_nightshift and can_work_pregnant; the Connection of facility location
  stores its two arguments and distance, which is
  \<^verbatim>\<open>np.sqrt(np.sum(np.square(np.subtract(origin.coordinate, destination.coordinate))))\<close>
  (construction fails where one of these numpy calls raises).
  Dataclasses: Unit, Facility, Client, Investment, Position, Value, Placement, Nightshift and
  both Rectangle dataclasses store exactly their arguments, each under its field name.
  After construction nothing is recomputed or checked: assigning a new end_time to a Shift
  leaves duration_in_hours as it was. The one property the code enforces is that an instance
  of a frozen dataclass (all of the above but the first Rectangle dataclass) cannot be
  assigned to: the assignment raises FrozenInstanceError.
\<close>

theorem record_types_store_arguments_and_derived_fields:
  "stored_values (Doctor_init a1 a2 a3 a4) = [a1, a2, a3, a4]
   \<and> stored_values (Untitled_Doctor_init b1 b2 b3) = [b1, b2, b3]
   \<and> stored_values (Rectangle_init c1 c2) = [c1, c2]
   \<and> stored_values (Connection_init e1 e2 e3 e4 e5) = [e1, e2, e3, e4, e5]
   \<and> MyBounds_init np_array (Some l1) (Some l2) =
       [(''xmax'', np_array l1), (''xmin'', np_array l2)]
   \<and> MyBounds_init np_array None None =
       [(''xmax'', np_array [11 / 10, 11 / 10]), (''xmin'', np_array [- 11 / 10, - 11 / 10])]
   \<and> MyBounds2_init np_array (Some l3) (Some l4) =
       [(''xmax'', np_array l3), (''xmin'', np_array l4)]
   \<and> MyBounds2_init np_array None None =
       [(''xmax'', np_array [11 / 10, 11 / 10]), (''xmin'', np_array [5 / 10, 5 / 10])]
   \<and> stored_values (Shift_init start_time end_time) =
       [DateTimeV start_time, DateTimeV end_time,
        FloatV (total_seconds (dt_sub end_time start_time) / 3600),
        BoolV (time 18 0 \<le> dt_time start_time \<or> dt_time start_time \<le> time 2 0),
        BoolV (total_seconds (dt_sub end_time start_time) / 3600 < 12
          \<and> \<not> (time 18 0 \<le> dt_time start_time \<or> dt_time start_time \<le> time 2 0))]
   \<and> getattr (setattr (Shift_init start_time end_time) ''end_time'' (DateTimeV later))
         ''duration_in_hours'' =
       Some (FloatV (total_seconds (dt_sub end_time start_time) / 3600))
   \<and> Facility_Connection_init np fac cl =
       (case np_subtract np (coordinate fac) (coordinate cl) of
          Inl e \<Rightarrow> Inl e
        | Inr difference \<Rightarrow>
            (case np_square np difference of
               Inl e \<Rightarrow> Inl e
             | Inr squares \<Rightarrow>
                 (case np_sum np squares of
                    Inl e \<Rightarrow> Inl e
                  | Inr summed \<Rightarrow>
                      (case np_sqrt np summed of
                         Inl e \<Rightarrow> Inl e
                       | Inr d \<Rightarrow>
                           Inr [(''origin'', FacilityV fac), (''destination'', ClientV cl),
                                (''distance'', DistanceV d)]))))
   \<and> dataclass_init Unit_dataclass [u1, u2] = Some [(''name'', u1), (''coordinate'', u2)]
   \<and> dataclass_init Facility_dataclass [f1, f2, f3] =
       Some [(''name'', f1), (''coordinate'', f2), (''construction_cost'', f3)]
   \<and> dataclass_init Client_dataclass [g1, g2, g3] =
       Some [(''name'', g1), (''coordinate'', g2), (''demand'', g3)]
   \<and> dataclass_init Investment_dataclass [i1, i2, i3] =
       Some [(''name'', i1), (''mean'', i2), (''sigma'', i3)]
   \<and> dataclass_init Position_dataclass [p1, p2] = Some [(''row'', p1), (''column'', p2)]
   \<and> dataclass_init Value_dataclass [v1, v2, v3] =
       Some [(''row'', v1), (''column'', v2), (''value'', v3)]
   \<and> dataclass_init Placement_dataclass [q1, q2, q3] =
       Some [(''doctor'', q1), (''shift'', q2), (''hospital'', q3)]
   \<and> dataclass_init Nightshift_dataclass [n1, n2] = Some [(''doctor'', n1), (''day'', n2)]
   \<and> dataclass_init Rectangle_dataclass [r1, r2] = Some [(''width'', r1), (''length'', r2)]
   \<and> dataclass_init Rectangle_frozen_dataclass [s1, s2] =
       Some [(''width'', s1), (''length'', s2)]
   \<and> list_all (\<lambda>cls. dataclass_setattr cls self k v = Inl FrozenInstanceError)
        [Unit_dataclass, Facility_dataclass, Client_dataclass, Investment_dataclass,
         Position_dataclass, Value_dataclass, Placement_dataclass, Nightshift_dataclass,
         Rectangle_frozen_dataclass]
   \<and> dataclass_setattr Rectangle_dataclass self k v = Inr (setattr self k v)"
proof (intro conjI)
  show "stored_values (Shift_init start_time end_time) =
       [DateTimeV start_time, DateTimeV end_time,
        FloatV (total_seconds (dt_sub end_time start_time) / 3600),
        BoolV (time 18 0 \<le> dt_time start_time \<or> dt_time start_time \<le> time 2 0),
        BoolV (total_seconds (dt_sub end_time start_time) / 3600 < 12
          \<and> \<not> (time 18 0 \<le> dt_time start_time \<or> dt_time start_time \<le> time 2 0))]"
    by (simp add: Shift_init_attributes stored_values_def)
  show "getattr (setattr (Shift_init start_time end_time) ''end_time'' (DateTimeV later))
         ''duration_in_hours'' =
       Some (FloatV (total_seconds (dt_sub end_time start_time) / 3600))"
    by (simp add: Shift_init_attributes setattr_def getattr_def)
  show "Facility_Connection_init np fac cl =
       (case np_subtract np (coordinate fac) (coordinate cl) of
          Inl e \<Rightarrow> Inl e
        | Inr difference \<Rightarrow>
            (case np_square np difference of
               Inl e \<Rightarrow> Inl e
             | Inr squares \<Rightarrow>
                 (case np_sum np squares of
                    Inl e \<Rightarrow> Inl e
                  | Inr summed \<Rightarrow>
                      (case np_sqrt np summed of
                         Inl e \<Rightarrow> Inl e
                       | Inr d \<Rightarrow>
                           Inr [(''origin'', FacilityV fac), (''destination'', ClientV cl),
                                (''distance'', DistanceV d)]))))"
    by (simp add: Facility_Connection_init_def get_distance_def setattr_def split: sum.splits)
qed (simp_all add: Doctor_init_def Untitled_Doctor_init_def Rectangle_init_def
      Connection_init_def MyBounds_init_def MyBounds2_init_def setattr_def stored_values_def
      dataclass_init_def dataclass_setattr_def Unit_dataclass_def Facility_dataclass_def
      Client_dataclass_def Investment_dataclass_def Position_dataclass_def Value_dataclass_def
      Placement_dataclass_def Nightshift_dataclass_def Rectangle_dataclass_def
      Rectangle_frozen_dataclass_def)

subsection \<open>Nurse scheduling\<close>

lemma SRange_list: "SRange = [0, 1, 2, 3]"
  by (simp add: SRange_def nShifts_def upt_rec)

lemma works_on_iff_not_off:
  assumes "list_all (\<lambda>s. x d s n = 0 \<or> x d s n = 1) SRange"
    and "mdl_sum (\<lambda>s. x d s n) SRange = 1"
  shows "works_on x n d \<longleftrightarrow> x d 0 n = 0"
  using assms by (auto simp add: SRange_list works_on_def mdl_sum_def)

lemma off_plus_worked:
  assumes "\<forall>d\<in>set ds. (x d 0 n = 0 \<or> x d 0 n = 1) \<and> (works_on x n d \<longleftrightarrow> x d 0 n = 0)"
  shows "int (length (filter (works_on x n) ds)) + mdl_sum (\<lambda>d. x d 0 n) ds = int (length ds)"
  using assms by (induction ds) (auto simp add: mdl_sum_def)

text \<open>
  C9. In the nurse scheduling model, for every 0/1 assignment \<open>x\<close> over 7 days and 4 shifts
  (shift 0 being the day off) and any nurse \<open>n\<close> that satisfies the constraint that the nurse
  takes exactly one shift each day, the day-off bounds \<open>1 \<le> sum over d of x[d,0,n] \<le> 2\<close> hold
  if and only if nurse \<open>n\<close> works 5 or 6 days of the week.
\<close>

theorem day_off_bounds_iff_days_worked:
  assumes "binary_vars x n" and "assign_all_nurses x n"
  shows "(LB_for_day_off x n \<and> UB_for_day_off x n)
     \<longleftrightarrow> (days_worked x n = 5 \<or> days_worked x n = 6)"
proof -
  have day: "\<forall>d\<in>set DRange.
      (x d 0 n = 0 \<or> x d 0 n = 1) \<and> (works_on x n d \<longleftrightarrow> x d 0 n = 0)"
  proof
    fix d assume d: "d \<in> set DRange"
    from assms(1) d have b: "list_all (\<lambda>s. x d s n = 0 \<or> x d s n = 1) SRange"
      by (simp add: binary_vars_def list_all_iff)
    from assms(2) d have s: "mdl_sum (\<lambda>s. x d s n) SRange = 1"
      by (simp add: assign_all_nurses_def list_all_iff)
    from b have "x d 0 n = 0 \<or> x d 0 n = 1" by (simp add: SRange_list)
    moreover have "works_on x n d \<longleftrightarrow> x d 0 n = 0"
      using b s by (rule works_on_iff_not_off)
    ultimately show "(x d 0 n = 0 \<or> x d 0 n = 1) \<and> (works_on x n d \<longleftrightarrow> x d 0 n = 0)"
      by simp
  qed
  have "int (days_worked x n) + mdl_sum (\<lambda>d. x d 0 n) DRange = 7"
    using off_plus_worked[OF day] by (simp add: days_worked_def DRange_def nDays_def)
  then show ?thesis
    unfolding LB_for_day_off_def UB_for_day_off_def by linarith
qed

text \<open>
  A roster for nurse 0: off on days 0 and 1, on shift 1 from day 2 to day 6. It is binary,
  has one shift per day, meets both day-off bounds and has 5 worked days.
\<close>

theorem day_off_bounds_iff_days_worked_witness:
  "binary_vars (\<lambda>d s n. if s = (if d < 2 then 0 else 1) then 1 else 0) 0
   \<and> assign_all_nurses (\<lambda>d s n. if s = (if d < 2 then 0 else 1) then 1 else 0) 0
   \<and> LB_for_day_off (\<lambda>d s n. if s = (if d < 2 then 0 else 1) then 1 else 0) 0
   \<and> UB_for_day_off (\<lambda>d s n. if s = (if d < 2 then 0 else 1) then 1 else 0) 0
   \<and> days_worked (\<lambda>d s n. if s = (if d < 2 then 0 else 1) then 1 else 0) 0 = 5"
proof -
  let ?x = "\<lambda>d s n :: nat. if s = (if d < 2 then 0 else 1) then 1 else 0 :: int"
  have b: "binary_vars ?x 0"
    by (simp add: binary_vars_def DRange_def SRange_def nDays_def nShifts_def upt_rec)
  have a: "assign_all_nurses ?x 0"
    by (simp add: assign_all_nurses_def mdl_sum_def DRange_def SRange_def nDays_def nShifts_def
        upt_rec)
  have l: "LB_for_day_off ?x 0 \<and> UB_for_day_off ?x 0"
    by (simp add: LB_for_day_off_def UB_for_day_off_def mdl_sum_def DRange_def nDays_def upt_rec)
  from day_off_bounds_iff_days_worked [OF b a] l
  have "days_worked ?x 0 = 5 \<or> days_worked ?x 0 = 6" by simp
  moreover have "days_worked ?x 0 \<noteq> 6"
    by (simp add: days_worked_def works_on_def DRange_def SRange_def nDays_def nShifts_def
        upt_rec)
  ultimately show ?thesis using b a l by simp
qed

subsection \<open>Basin-hopping accept test\<close>

text \<open>
  C7, as stated, says that every accept/reject decision of an optimization is taken inside
  the third-party library. It fails for the basin-hopping notebook: the accept test handed to
  \<^verbatim>\<open>basinhopping\<close> is repository code, and it rejects the candidate (1.2, 1.0) while it
  accepts (1.0, 1.0).
\<close>

theorem MyBounds_decides_acceptance:
  "MyBounds_call mybounds [12 / 10, 1] = Inr False \<and> MyBounds_call mybounds [1, 1] = Inr True"
  by (simp add: MyBounds_call_def mybounds_def np_compare_def np_all_def)

lemma np_all_zip:
  "length xs = length ys \<Longrightarrow>
     np_all (map (\<lambda>(a, b). f a b) (zip xs ys)) = (\<forall>i<length xs. f (xs ! i) (ys ! i))"
  by (auto simp add: np_all_def list_all_iff set_zip)

text \<open>
  C7, amended. The search itself (local minimisation, step taking, the Metropolis criterion,
  and simplex, branch-and-bound and interior-point methods elsewhere) runs inside the
  third-party libraries, but one accept/reject decision is repository code: the accept test
  \<^verbatim>\<open>MyBounds\<close> (and \<^verbatim>\<open>MyBounds2\<close>) passed to \<^verbatim>\<open>basinhopping\<close> accepts a candidate
  \<open>x_new\<close> of the dimension of the bounds if and only if every coordinate lies between
  \<open>xmin\<close> and \<open>xmax\<close>.
\<close>

theorem MyBounds_call_accepts_iff_within_bounds:
  assumes "length x_new = length (xmax self)" and "length x_new = length (xmin self)"
  shows "MyBounds_call self x_new =
     Inr (\<forall>i<length x_new. xmin self ! i \<le> x_new ! i \<and> x_new ! i \<le> xmax self ! i)"
  using assms by (auto simp add: MyBounds_call_def np_compare_def np_all_zip)

theorem MyBounds_call_accepts_iff_within_bounds_witness:
  "length [6 / 10, 1 :: real] = length (xmax mybounds2)
   \<and> length [6 / 10, 1 :: real] = length (xmin mybounds2)
   \<and> MyBounds_call mybounds2 [6 / 10, 1] =
       Inr (\<forall>i<length [6 / 10, 1 :: real].
              xmin mybounds2 ! i \<le> [6 / 10, 1] ! i \<and> [6 / 10, 1] ! i \<le> xmax mybounds2 ! i)"
proof -
  have l1: "length [6 / 10, 1 :: real] = length (xmax mybounds2)"
    by (simp add: mybounds2_def)
  have l2: "length [6 / 10, 1 :: real] = length (xmin mybounds2)"
    by (simp add: mybounds2_def)
  from MyBounds_call_accepts_iff_within_bounds [OF l1 l2] l1 l2 show ?thesis
    by simp
qed

subsection \<open>Portfolio optimization\<close>

lemma xp_Sum_squares_nonneg: "0 \<le> xp_Sum (\<lambda>inv. (f inv) ^ 2) xs"
  unfolding xp_Sum_def by (rule sum_list_nonneg) auto

text \<open>The commented-out constraint implies the one the notebook adds.\<close>

lemma commented_implies_enforce_risk_limit:
  assumes q: "ppf_beta < 0" and l: "link_x_all investments x x_all"
    and c: "commented_risk_limit ppf_beta investments x"
  shows "enforce_risk_limit ppf_beta investments x x_all \<and> 0 \<le> x_all"
proof -
  define S where "S = xp_Sum (\<lambda>inv. (sigma inv * x inv) ^ 2) investments"
  have S: "0 \<le> S" unfolding S_def by (rule xp_Sum_squares_nonneg)
  from c l have m: "0 \<le> x_all + ppf_beta * sqrt S"
    by (simp add: commented_risk_limit_def link_x_all_def S_def)
  define t where "t = - (ppf_beta * sqrt S)"
  have "ppf_beta * sqrt S \<le> 0" using q S by (simp add: mult_nonpos_nonneg)
  then have t0: "0 \<le> t" by (simp add: t_def)
  have tle: "t \<le> x_all" using m by (simp add: t_def)
  from tle t0 have "t\<^sup>2 \<le> x_all\<^sup>2" by (rule power_mono)
  moreover have "t\<^sup>2 = ppf_beta\<^sup>2 * S" using S by (simp add: t_def power_mult_distrib)
  ultimately have "ppf_beta\<^sup>2 * S \<le> x_all\<^sup>2" by simp
  then have "enforce_risk_limit ppf_beta investments x x_all"
    by (simp add: enforce_risk_limit_def S_def)
  moreover have "0 \<le> x_all" using t0 tle by simp
  ultimately show ?thesis by simp
qed

text \<open>The converse needs the expected return \<open>x_all\<close> to be non-negative.\<close>

lemma enforce_risk_limit_implies_commented:
  assumes q: "ppf_beta < 0" and l: "link_x_all investments x x_all" and nn: "0 \<le> x_all"
    and e: "enforce_risk_limit ppf_beta investments x x_all"
  shows "commented_risk_limit ppf_beta investments x"
proof -
  define S where "S = xp_Sum (\<lambda>inv. (sigma inv * x inv) ^ 2) investments"
  have S: "0 \<le> S" unfolding S_def by (rule xp_Sum_squares_nonneg)
  from e have "ppf_beta\<^sup>2 * S \<le> x_all\<^sup>2" by (simp add: enforce_risk_limit_def S_def)
  then have "sqrt (ppf_beta\<^sup>2 * S) \<le> sqrt (x_all\<^sup>2)" by (rule real_sqrt_le_mono)
  then have "\<bar>ppf_beta\<bar> * sqrt S \<le> \<bar>x_all\<bar>" by (simp add: real_sqrt_mult)
  then have "0 \<le> x_all + ppf_beta * sqrt S" using q nn by simp
  then show ?thesis using l by (simp add: commented_risk_limit_def link_x_all_def S_def)
qed

lemma xp_Sum_all_in_one:
  assumes "distinct xs" and "a \<in> set xs"
  shows "xp_Sum (\<lambda>inv. f inv (if inv = a then 1 else 0)) xs
     = f a 1 + xp_Sum (\<lambda>inv. f inv 0) (remove1 a xs)"
  using assms
proof (induction xs)
  case Nil
  then show ?case by simp
next
  case (Cons y ys)
  show ?case
  proof (cases "y = a")
    case True
    with Cons.prems have "a \<notin> set ys" by simp
    then have "sum_list (map (\<lambda>inv. f inv (if inv = a then 1 else 0)) ys)
        = sum_list (map (\<lambda>inv. f inv 0) ys)"
      by (intro arg_cong[where f = sum_list] map_cong) auto
    then show ?thesis using True by (simp add: xp_Sum_def)
  next
    case False
    with Cons show ?thesis by (simp add: xp_Sum_def)
  qed
qed

lemma py_min_le:
  assumes "m \<in> set ms"
  shows "\<exists>lb. py_min ms = Some lb \<and> lb \<le> m"
proof (cases ms)
  case Nil
  with assms show ?thesis by simp
next
  case (Cons y ys)
  have "fold min ys y = Min (set (y # ys))" by (rule Min.set_eq_fold[symmetric])
  moreover have "Min (set (y # ys)) \<le> m" using assms Cons by (intro Min_le) auto
  ultimately show ?thesis using Cons by (simp add: py_min_def)
qed

lemma py_max_ge:
  assumes "m \<in> set ms"
  shows "\<exists>ub. py_max ms = Some ub \<and> m \<le> ub"
proof (cases ms)
  case Nil
  with assms show ?thesis by simp
next
  case (Cons y ys)
  have "fold max ys y = Max (set (y # ys))" by (rule Max.set_eq_fold[symmetric])
  moreover have "m \<le> Max (set (y # ys))" using assms Cons by (intro Max_ge) auto
  ultimately show ?thesis using Cons by (simp add: py_max_def)
qed

text \<open>
  C10 says that the constraint the notebook adds, together with the definition of \<open>x_all\<close>,
  holds exactly when the commented-out risk constraint holds. The notebook's own text says
  the same (squaring each side does not affect the validity of the inequality), but the model
  it builds does not keep \<open>x_all\<close> non-negative: the lower bound of \<open>x_all\<close> is the least mean.
  Whenever an investment \<open>inv0\<close> of the list has a negative mean return and
  \<open>norm.ppf(beta)\<^sup>2 * sigma\<^sup>2 \<le> mean\<^sup>2\<close>, the portfolio that puts everything into \<open>inv0\<close>
  satisfies every bound and constraint of the model, with \<open>x_all\<close> the mean of \<open>inv0\<close>, and
  violates the risk constraint.
\<close>

theorem risk_reformulation_admits_loss:
  assumes d: "distinct investments" and i: "inv0 \<in> set investments"
    and m: "mean inv0 < 0" and q: "ppf_beta < 0"
    and s: "ppf_beta\<^sup>2 * (sigma inv0)\<^sup>2 \<le> (mean inv0)\<^sup>2"
  shows "portfolio_model ppf_beta investments (\<lambda>inv. if inv = inv0 then 1 else 0) (mean inv0)
     \<and> \<not> commented_risk_limit ppf_beta investments (\<lambda>inv. if inv = inv0 then 1 else 0)"
proof -
  let ?x = "\<lambda>inv. if inv = inv0 then 1 else 0 :: real"
  have sum_x: "xp_Sum (\<lambda>inv. ?x inv) investments = 1"
    using xp_Sum_all_in_one[OF d i, of "\<lambda>inv v. v"] by (simp add: xp_Sum_def)
  have sum_m: "xp_Sum (\<lambda>inv. mean inv * ?x inv) investments = mean inv0"
    using xp_Sum_all_in_one[OF d i, of "\<lambda>inv v. mean inv * v"] by (simp add: xp_Sum_def)
  have sum_s: "xp_Sum (\<lambda>inv. (sigma inv * ?x inv)\<^sup>2) investments = (sigma inv0)\<^sup>2"
    using xp_Sum_all_in_one[OF d i, of "\<lambda>inv v. (sigma inv * v)\<^sup>2"] by (simp add: xp_Sum_def)
  have b: "x_bounds investments ?x"
    by (simp add: x_bounds_def list_all_iff)
  from i have "mean inv0 \<in> set (map mean investments)" by simp
  from py_min_le[OF this] py_max_ge[OF this]
  have ab: "x_all_bounds investments (mean inv0)" by (auto simp add: x_all_bounds_def)
  have "portfolio_model ppf_beta investments ?x (mean inv0)"
    using b ab s sum_x sum_m sum_s
    by (simp add: portfolio_model_def enforcing_investment_amount_def link_x_all_def
        enforce_risk_limit_def)
  moreover have "ppf_beta * \<bar>sigma inv0\<bar> \<le> 0" using q by (simp add: mult_nonpos_nonneg)
  then have "\<not> commented_risk_limit ppf_beta investments ?x"
    using m sum_m sum_s by (simp add: commented_risk_limit_def)
  ultimately show ?thesis by simp
qed

text \<open>
  A falling market: every stock of the notebook's list with mean daily return -0.002 and
  sigma 0.001, and -1.645 for \<^verbatim>\<open>norm.ppf(0.05)\<close>. Everything in AAPL is accepted by the
  model and violates the risk constraint.
\<close>

theorem risk_reformulation_admits_loss_witness:
  "distinct (map (\<lambda>s. Investment s (- 2 / 1000) (1 / 1000)) stocks)
   \<and> Investment ''AAPL'' (- 2 / 1000) (1 / 1000)
       \<in> set (map (\<lambda>s. Investment s (- 2 / 1000) (1 / 1000)) stocks)
   \<and> mean (Investment ''AAPL'' (- 2 / 1000) (1 / 1000)) < 0
   \<and> (- 1645 / 1000 :: real) < 0
   \<and> (- 1645 / 1000 :: real)\<^sup>2 * (sigma (Investment ''AAPL'' (- 2 / 1000) (1 / 1000)))\<^sup>2
       \<le> (mean (Investment ''AAPL'' (- 2 / 1000) (1 / 1000)))\<^sup>2
   \<and> portfolio_model (- 1645 / 1000) (map (\<lambda>s. Investment s (- 2 / 1000) (1 / 1000)) stocks)
       (\<lambda>inv. if inv = Investment ''AAPL'' (- 2 / 1000) (1 / 1000) then 1 else 0) (- 2 / 1000)
   \<and> \<not> commented_risk_limit (- 1645 / 1000)
       (map (\<lambda>s. Investment s (- 2 / 1000) (1 / 1000)) stocks)
       (\<lambda>inv. if inv = Investment ''AAPL'' (- 2 / 1000) (1 / 1000) then 1 else 0)"
proof -
  have d: "distinct (map (\<lambda>s. Investment s (- 2 / 1000) (1 / 1000)) stocks)"
    by (simp add: stocks_def)
  have i: "Investment ''AAPL'' (- 2 / 1000) (1 / 1000)
      \<in> set (map (\<lambda>s. Investment s (- 2 / 1000) (1 / 1000)) stocks)"
    by (simp add: stocks_def)
  have s: "(- 1645 / 1000 :: real)\<^sup>2 * (sigma (Investment ''AAPL'' (- 2 / 1000) (1 / 1000)))\<^sup>2
      \<le> (mean (Investment ''AAPL'' (- 2 / 1000) (1 / 1000)))\<^sup>2"
    by (simp add: power2_eq_square)
  from risk_reformulation_admits_loss [OF d i _ _ s] d i s show ?thesis by simp
qed



subsection \<open>The notebooks\<close>

lemmas notebook_defs =
  batch_scheduling_part2_solution_checkpoint_def facility_location_solution_checkpoint_def
  portfolio_basinhopping_checkpoint_def portfolio_basinhopping_checkpoint_2_tank_def
  portfolio_optimization2_checkpoint_def tank_problem_checkpoint_def
  tank_problem_checkpoint_2_n_queens_def two_tanks_solution_checkpoint_def
  batch_scheduling_def batch_scheduling_part1_solution_def
  doctors_scheduling_part1_solution_def doctors_scheduling_solution_def
  introduction_to_python_def n_queens_problem_def untitled_def urban_zone_fares_def
  urban_zone_fares_solution_def part_001_basin_hopping_def part_002_nurse_scheduling_def
  part_003_sudoku_def part_003_2_portfolio_def part_004_deviation_estimation_def
  part_004_2_doctors_scheduling_def

lemmas cell_defs = code_cell_def failed_cell_def syntax_error_cell_def run_def

text \<open>
  C1, as stated, says that every notebook makes exactly one solver call. It fails for the
  basin-hopping notebook, which calls \<^verbatim>\<open>basinhopping\<close> four times.
\<close>

theorem basin_hopping_solves_four_times:
  "solver_calls part_001_basin_hopping =
     [Scipy_basinhopping, Scipy_basinhopping, Scipy_basinhopping, Scipy_basinhopping]
   \<and> length (solver_calls part_001_basin_hopping) \<noteq> 1"
  by (simp add: part_001_basin_hopping_def cell_defs solver_calls_def)

text \<open>
  C1, amended. Every notebook, executed top to bottom, makes its solver calls as blocking
  calls one after another, and no code cell holds more than one solve call. The number of
  solver calls of a notebook is not always one: the basin-hopping notebook makes four, the
  nurse scheduling notebook three (one for each of its three models), twelve notebooks make
  one, and nine make none. Of these nine, six have no solve call at all (the three batch
  scheduling notebooks, the two introductions and the deviation estimation notebook), and
  three call \<^verbatim>\<open>model.solve()\<close> with \<^verbatim>\<open>model\<close> unbound, which raises NameError before a
  solver is entered: the urban zone fares exercise, whose cell binding \<^verbatim>\<open>model\<close> does not
  compile, and the portfolio and doctors scheduling exercises of \<^verbatim>\<open>part_003\<close> and
  \<^verbatim>\<open>part_004\<close>, which bind \<^verbatim>\<open>model\<close> nowhere.
\<close>

theorem solver_calls_per_notebook:
  "map (\<lambda>(name, nb). (name, length (solver_calls nb))) repository =
     [(''Batch scheduling.part2.solution-checkpoint.ipynb'', 0),
      (''Facility location problem.solution-checkpoint.ipynb'', 1),
      (''Portfolio optimization with basinhopping-checkpoint.ipynb #1'', 1),
      (''Portfolio optimization with basinhopping-checkpoint.ipynb #2'', 1),
      (''Portfolio optimization2-checkpoint.ipynb'', 1),
      (''Tank problem-checkpoint.ipynb #1'', 1),
      (''Tank problem-checkpoint.ipynb #2'', 1),
      (''Two tanks.solution-checkpoint.ipynb'', 1),
      (''Batch scheduling.ipynb'', 0),
      (''Batch scheduling.part1.solution.ipynb'', 0),
      (''Doctors scheduling.part1.solution.ipynb'', 1),
      (''Doctors scheduling.solution.ipynb'', 1),
      (''Introduction to Python.ipynb'', 0),
      (''N-queens problem.ipynb'', 1),
      (''Untitled.ipynb'', 0),
      (''Urban zone fares.ipynb'', 0),
      (''Urban zone fares.solution.ipynb'', 1),
      (''part_001'', 4),
      (''part_002'', 3),
      (''part_003 #1'', 1),
      (''part_003 #2'', 0),
      (''part_004 #1'', 0),
      (''part_004 #2'', 0)]
   \<and> list_all (\<lambda>(name, nb). list_all (\<lambda>c. length (filter is_solve (events c)) \<le> 1) nb)
        repository
   \<and> map fst (filter (\<lambda>(name, nb). list_ex is_solve (run nb) \<and> solver_calls nb = [])
        repository) =
       [''Urban zone fares.ipynb'', ''part_003 #2'', ''part_004 #2'']"
  by (simp add: repository_def notebook_defs cell_defs solver_calls_def)

text \<open>
  C2, as stated, says that the uncaught exception seen in a cell's output is an infeasibility
  or licensing error reported by the solver. It fails for the facility location notebook,
  whose failing cell shows a NameError.
\<close>

theorem facility_location_shows_NameError:
  "recorded_errors facility_location_solution_checkpoint = [NameError]
   \<and> \<not> solver_infeasibility_or_licensing NameError"
  by (simp add: facility_location_solution_checkpoint_def cell_defs recorded_errors_def)

text \<open>
  C2, amended. No notebook code catches, retries or recovers from an error: no cell has a
  handler, so an exception raised in a cell ends it uncaught and is printed in its output.
  Six cell outputs show such an exception. One is a licensing error reported by the solver
  (Xpress, in the N-queens notebook); none is an infeasibility error; the other five are a
  NameError, a SystemError from \<^verbatim>\<open>addConstraint\<close>, an IndentationError, an IndexError
  and a FrozenInstanceError. The IndexError is raised by the notebook's own indexing
  \<^verbatim>\<open>p[4]\<close> of a list of four.
\<close>

theorem recorded_errors_of_repository:
  "list_all (\<lambda>(name, nb). Handler \<notin> set (run nb)) repository
   \<and> concat (map (\<lambda>(name, nb). map (Pair name) (recorded_errors nb)) repository) =
     [(''Facility location problem.solution-checkpoint.ipynb'', NameError),
      (''Tank problem-checkpoint.ipynb #2'', Xpress_licensing_RuntimeError),
      (''Doctors scheduling.part1.solution.ipynb'', SystemError),
      (''Introduction to Python.ipynb'', IndentationError),
      (''Introduction to Python.ipynb'', IndexError),
      (''Untitled.ipynb'', FrozenInstanceError)]
   \<and> filter solver_infeasibility_or_licensing
        (concat (map (\<lambda>(name, nb). recorded_errors nb) repository)) =
     [Xpress_licensing_RuntimeError]
   \<and> index_cell = Inl IndexError"
  by (simp add: repository_def notebook_defs cell_defs recorded_errors_def index_cell_def
      py_getitem_def)

text \<open>
  C5, as stated, says that exactly one notebook reads a spreadsheet and every other notebook
  takes its data from values embedded in its code. It fails for the portfolio notebook, which
  reads no spreadsheet and downloads its data; and three notebooks read the spreadsheet.
\<close>

theorem portfolio_downloads_its_data:
  "data_reads portfolio_optimization2_checkpoint = [DataReader ''yahoo'']
   \<and> map fst (filter (\<lambda>(name, nb). ReadExcel ''DoctorData.xlsx'' \<in> set (run nb)) repository) =
       [''Doctors scheduling.part1.solution.ipynb'', ''Doctors scheduling.solution.ipynb'',
        ''part_004 #2'']"
  by (simp add: repository_def notebook_defs cell_defs data_reads_def)

text \<open>
  C5, amended. The doctors scheduling case, in its three notebooks, reads the spreadsheet
  DoctorData.xlsx with pandas \<^verbatim>\<open>read_excel\<close>; the two portfolio optimization notebooks
  download price data with \<^verbatim>\<open>pandas_datareader\<close>; no other notebook reads a file or a
  network source.
\<close>

theorem data_reads_per_notebook:
  "map (\<lambda>(name, nb). (name, data_reads nb))
       (filter (\<lambda>(name, nb). data_reads nb \<noteq> []) repository) =
     [(''Portfolio optimization2-checkpoint.ipynb'', [DataReader ''yahoo'']),
      (''Doctors scheduling.part1.solution.ipynb'', [ReadExcel ''DoctorData.xlsx'']),
      (''Doctors scheduling.solution.ipynb'', [ReadExcel ''DoctorData.xlsx'']),
      (''part_003 #2'', [DataReader ''yahoo'']),
      (''part_004 #2'', [ReadExcel ''DoctorData.xlsx''])]"
  by (simp add: repository_def notebook_defs cell_defs data_reads_def)


end
